theory Spec2Isabelle
  imports Main "HOL-Library.Sublist"
begin

section \<open>On-device translator creation: CreateTranslatorClient\<close>

text \<open>
  A shallow embedding of
  \<^verbatim>\<open>blink/renderer/modules/ai/on_device_translation/create_translator_client.cc\<close>.
  The client object is a record, every effect it has on its collaborators (the promise
  resolver, the console, the progress monitor, the mojo receiver and the translation
  manager) is appended to a trace, and a failed \<^verbatim>\<open>CHECK\<close> or a null dereference is
  a value of type \<open>crash\<close>.
\<close>

subsection \<open>The two mojom enums\<close>

datatype CreateTranslatorError =
    kInvalidBinary
  | kInvalidFunctionPointer
  | kFailedToInitialize
  | kFailedToCreateTranslator
  | kAcceptLanguagesCheckFailed
  | kExceedsLanguagePackCountLimitation
  | kServiceCrashed
  | kDisallowedByPolicy
  | kExceedsServiceCountLimitation
  | kExceedsPendingTaskCountLimitation
  | kInvalidVersion

datatype CanCreateTranslatorResult =
    kReadily
  | kAfterDownloadLibraryNotReady
  | kAfterDownloadLanguagePackNotReady
  | kAfterDownloadLibraryAndLanguagePackNotReady
  | kAfterDownloadTranslatorCreationRequired
  | kNoNotSupportedLanguage
  | kNoAcceptLanguagesCheckFailed
  | kNoExceedsLanguagePackCountLimitation
  | kNoServiceCrashed
  | kNoDisallowedByPolicy
  | kNoExceedsServiceCountLimitation

text \<open>Every value of the error enum, in the order of the switch.\<close>

definition all_CreateTranslatorError :: "CreateTranslatorError list" where
  "all_CreateTranslatorError =
     [kInvalidBinary, kInvalidFunctionPointer, kFailedToInitialize,
      kFailedToCreateTranslator, kAcceptLanguagesCheckFailed,
      kExceedsLanguagePackCountLimitation, kServiceCrashed, kDisallowedByPolicy,
      kExceedsServiceCountLimitation, kExceedsPendingTaskCountLimitation,
      kInvalidVersion]"

subsection \<open>The constants and pure helpers of the anonymous namespace\<close>

definition kExceptionMessageUnableToCreateTranslator :: string where
  "kExceptionMessageUnableToCreateTranslator =
     ''Unable to create translator for the given source and target language.''"

definition kLinkToDocument :: string where
  "kLinkToDocument =
     ''See '' @
     ''https://developer.chrome.com/docs/ai/translator-api?#supported-languages '' @
     ''for more details.''"

fun ConvertCreateTranslatorErrorToDebugString :: "CreateTranslatorError \<Rightarrow> string" where
  "ConvertCreateTranslatorErrorToDebugString kInvalidBinary =
     ''Failed to load the translation library.''"
| "ConvertCreateTranslatorErrorToDebugString kInvalidFunctionPointer =
     ''The translation library is not compatible.''"
| "ConvertCreateTranslatorErrorToDebugString kFailedToInitialize =
     ''Failed to initialize the translation library.''"
| "ConvertCreateTranslatorErrorToDebugString kFailedToCreateTranslator =
     ''The translation library failed to create a translator.''"
| "ConvertCreateTranslatorErrorToDebugString kAcceptLanguagesCheckFailed =
     ''The preferred languages check for Translator API failed. '' @ kLinkToDocument"
| "ConvertCreateTranslatorErrorToDebugString kExceedsLanguagePackCountLimitation =
     ''The Translator API language pack count exceeded the limitation. '' @ kLinkToDocument"
| "ConvertCreateTranslatorErrorToDebugString kServiceCrashed =
     ''The translation service crashed.''"
| "ConvertCreateTranslatorErrorToDebugString kDisallowedByPolicy =
     ''The translation is disallowed by policy.''"
| "ConvertCreateTranslatorErrorToDebugString kExceedsServiceCountLimitation =
     ''The translation service count exceeded the limitation.''"
| "ConvertCreateTranslatorErrorToDebugString kExceedsPendingTaskCountLimitation =
     ''Too many Translator API requests are queued.''"
| "ConvertCreateTranslatorErrorToDebugString kInvalidVersion =
     ''The translation library version is invalid.''"

fun RequiresUserActivation :: "CanCreateTranslatorResult \<Rightarrow> bool" where
  "RequiresUserActivation kAfterDownloadLibraryNotReady = True"
| "RequiresUserActivation kAfterDownloadLanguagePackNotReady = True"
| "RequiresUserActivation kAfterDownloadLibraryAndLanguagePackNotReady = True"
| "RequiresUserActivation kAfterDownloadTranslatorCreationRequired = True"
| "RequiresUserActivation kReadily = False"
| "RequiresUserActivation kNoNotSupportedLanguage = False"
| "RequiresUserActivation kNoAcceptLanguagesCheckFailed = False"
| "RequiresUserActivation kNoExceedsLanguagePackCountLimitation = False"
| "RequiresUserActivation kNoServiceCrashed = False"
| "RequiresUserActivation kNoDisallowedByPolicy = False"
| "RequiresUserActivation kNoExceedsServiceCountLimitation = False"

subsection \<open>Values exchanged with the collaborators\<close>

type_synonym TranslatorRemote = nat
type_synonym AbortSignal = nat

text \<open>The mojom union \<^verbatim>\<open>CreateTranslatorResult\<close>: a translator remote or an error.\<close>

datatype CreateTranslatorResult =
    is_translator: translator (get_translator: TranslatorRemote)
  | is_error: error (get_error: CreateTranslatorError)

datatype DOMExceptionCode = kNotSupportedError | kNotAllowedError

record DOMException =
  exception_message :: string
  exception_name :: DOMExceptionCode

text \<open>The arguments \<^verbatim>\<open>OnResult\<close> passes to the constructor of \<^verbatim>\<open>Translator\<close>.\<close>

record Translator =
  translator_remote :: TranslatorRemote
  translator_source_language :: string
  translator_target_language :: string
  translator_signal :: "AbortSignal option"

datatype ConsoleMessageSource = kJavaScript
datatype ConsoleMessageLevel = kWarning

text \<open>What the client does to the world around it, in the order in which it does it.\<close>

datatype effect =
    MonitorCallbackInvoke
  | ConsumeTransientUserActivationCall bool
  | ResolverReject DOMException
  | ResolverResolve Translator
  | AddConsoleMessage ConsoleMessageSource ConsoleMessageLevel string
  | DownloadProgressEvent nat nat
  | ReceiverBind
  | MonitorBindRemote
  | CreateTranslatorCall string string bool
  | ReceiverReset

datatype crash = CheckFailure | NullDereference

text \<open>
  What the source reads from its surroundings and does not define itself: the runtime
  feature flag, the kind of execution context, two constants of \<^verbatim>\<open>ai_utils.h\<close>, and
  the script observer registered on the monitor (\<open>observer_aborts loaded total\<close> tells
  whether its handler of the event \<open>{loaded, total}\<close> triggers the abort signal before it
  returns).
\<close>

record environment =
  TranslationAPIV1Enabled :: bool
  IsServiceWorkerGlobalScope :: bool
  window_present :: bool
  kExceptionMessageUserActivationRequired :: string
  kNormalizedDownloadProgressMax :: nat
  observer_aborts :: "nat \<Rightarrow> nat \<Rightarrow> bool"

record TranslatorCreateOptions =
  sourceLanguage :: string
  targetLanguage :: string
  hasMonitor :: bool
  getSignal :: "AbortSignal option"

text \<open>
  The client (members are written without their trailing underscore): \<open>resolver\<close> is
  whether \<^verbatim>\<open>GetResolver()\<close> is non-null, \<open>monitor\<close> whether that member is
  non-null, \<open>receiver_bound\<close> the state of \<^verbatim>\<open>receiver_\<close>,
  \<open>transient_activation\<close> the activation state of the window's frame.
\<close>

record client =
  resolver :: bool
  abort_signal :: "AbortSignal option"
  source_language :: string
  target_language :: string
  monitor :: bool
  receiver_bound :: bool
  transient_activation :: bool
  effects :: "effect list"

definition emit :: "effect \<Rightarrow> client \<Rightarrow> client" where
  "emit e s = s\<lparr>effects := effects s @ [e]\<rparr>"

subsection \<open>Collaborators that are not part of the file\<close>

text \<open>
  Modelled from the spec: the Resolver (\<^verbatim>\<open>ScriptPromiseResolver\<close> behind
  \<^verbatim>\<open>AIContextObserver::GetResolver\<close>) is missing. The spec has it single-shot:
  ``once invoked, the orchestrator treats the Resolver as gone (weak/null)'', ``consumed
  (taken) at first use''.
\<close>

definition Resolve :: "Translator \<Rightarrow> client \<Rightarrow> client" where
  "Resolve t s = (emit (ResolverResolve t) s)\<lparr>resolver := False\<rparr>"

text \<open>
  Modelled from the spec: \<^verbatim>\<open>Reject\<close> of the same missing Resolver, single-shot in
  the same way.
\<close>

definition Reject :: "DOMException \<Rightarrow> client \<Rightarrow> client" where
  "Reject e s = (emit (ResolverReject e) s)\<lparr>resolver := False\<rparr>"

text \<open>
  \<^verbatim>\<open>DOMException::Create(message, name)\<close> and the resolver's
  \<^verbatim>\<open>RejectWithDOMException(code, message)\<close>, as the source calls them: the exception
  is the pair of the message and the error name.
\<close>

definition DOMException_Create :: "string \<Rightarrow> DOMExceptionCode \<Rightarrow> DOMException" where
  "DOMException_Create msg nm = \<lparr>exception_message = msg, exception_name = nm\<rparr>"

definition RejectWithDOMException :: "DOMExceptionCode \<Rightarrow> string \<Rightarrow> client \<Rightarrow> client" where
  "RejectWithDOMException code msg s = Reject (DOMException_Create msg code) s"

text \<open>
  Modelled from the spec: the cancellation mechanism (the abort algorithm of
  \<^verbatim>\<open>AIContextObserver\<close>) is missing. The spec: ``the cancellation mechanism may only
  flip a readiness flag that the orchestrator polls at checkpoints'', ``once cancelled, the
  Resolver reference is treated as absent''.
\<close>

definition Abort :: "client \<Rightarrow> client" where
  "Abort s = s\<lparr>resolver := False\<rparr>"

text \<open>
  Modelled from the spec: \<^verbatim>\<open>CreateMonitor::OnDownloadProgressUpdate\<close> is missing. The
  spec: the monitor forwards the event to the external observer, and the observer ``may
  cancel from within its own callback''.
\<close>

definition OnDownloadProgressUpdate :: "environment \<Rightarrow> nat \<Rightarrow> nat \<Rightarrow> client \<Rightarrow> client" where
  "OnDownloadProgressUpdate env loaded whole s =
     (let s' = emit (DownloadProgressEvent loaded whole) s
      in if observer_aborts env loaded whole then Abort s' else s')"

text \<open>
  Modelled from the spec: \<^verbatim>\<open>LocalFrame::ConsumeTransientUserActivation\<close> is missing.
  The spec: ActivationGate, \<^verbatim>\<open>consumeIfPresent() -> bool\<close>, ``consumed once per check''.
\<close>

definition ConsumeTransientUserActivation :: "client \<Rightarrow> bool \<times> client" where
  "ConsumeTransientUserActivation s =
     (transient_activation s,
      emit (ConsumeTransientUserActivationCall (transient_activation s))
        (s\<lparr>transient_activation := False\<rparr>))"

subsection \<open>The member functions\<close>

text \<open>
  The constructor. The resolver it is given is non-null; the monitor is made, and the
  script's monitor callback invoked, only when the options have one.
\<close>

definition CreateTranslatorClient :: "TranslatorCreateOptions \<Rightarrow> bool \<Rightarrow> client" where
  "CreateTranslatorClient options activation =
     \<lparr>resolver = True,
      abort_signal = getSignal options,
      source_language = sourceLanguage options,
      target_language = targetLanguage options,
      monitor = hasMonitor options,
      receiver_bound = False,
      transient_activation = activation,
      effects = (if hasMonitor options then [MonitorCallbackInvoke] else [])\<rparr>"

definition ResetReceiver :: "client \<Rightarrow> client" where
  "ResetReceiver s = emit ReceiverReset (s\<lparr>receiver_bound := False\<rparr>)"

text \<open>
  Modelled from the spec: \<^verbatim>\<open>AIContextObserver::Cleanup\<close> is missing. The spec:
  ``release the channel endpoint, release the progress monitor''; releasing the channel
  endpoint is \<open>ResetReceiver\<close> of the source.
\<close>

definition Cleanup :: "client \<Rightarrow> client" where
  "Cleanup s = (ResetReceiver s)\<lparr>monitor := False\<rparr>"

text \<open>
  The last statement of \<^verbatim>\<open>OnResult\<close>: the two language members are moved into the
  translator, which leaves them empty.
\<close>

definition ResolveWithTranslator :: "TranslatorRemote \<Rightarrow> client \<Rightarrow> client" where
  "ResolveWithTranslator remote s =
     (Resolve \<lparr>translator_remote = remote,
               translator_source_language = source_language s,
               translator_target_language = target_language s,
               translator_signal = abort_signal s\<rparr> s)
       \<lparr>source_language := [], target_language := []\<rparr>"

text \<open>
  The body of \<^verbatim>\<open>OnResult\<close>, up to each of its \<^verbatim>\<open>return\<close>s. The union has two
  variants, so \<^verbatim>\<open>CHECK(result->is_error())\<close> cannot fail where it stands.
\<close>

definition OnResult_body :: "environment \<Rightarrow> CreateTranslatorResult \<Rightarrow> client \<Rightarrow> client" where
  "OnResult_body env result s =
     (if \<not> resolver s then s
      else if \<not> is_translator result then
        Reject (DOMException_Create kExceptionMessageUnableToCreateTranslator kNotSupportedError)
          (emit (AddConsoleMessage kJavaScript kWarning
                   (ConvertCreateTranslatorErrorToDebugString (get_error result))) s)
      else if monitor s then
        (let s1 = OnDownloadProgressUpdate env 0 (kNormalizedDownloadProgressMax env) s
         in if \<not> resolver s1 then s1
            else
              (let s2 = OnDownloadProgressUpdate env (kNormalizedDownloadProgressMax env)
                          (kNormalizedDownloadProgressMax env) s1
               in if \<not> resolver s2 then s2
                  else ResolveWithTranslator (get_translator result) s2))
      else ResolveWithTranslator (get_translator result) s)"

text \<open>\<^verbatim>\<open>RunOnDestruction\<close>: \<open>Cleanup\<close> runs when the function returns, on every path.\<close>

definition OnResult :: "environment \<Rightarrow> CreateTranslatorResult \<Rightarrow> client \<Rightarrow> client" where
  "OnResult env result s = Cleanup (OnResult_body env result s)"

text \<open>
  Lines 177 to 195 of \<^verbatim>\<open>OnGotAvailability\<close>: bind the receiver, bind the monitor's
  remote when there is a monitor, call \<^verbatim>\<open>CreateTranslator\<close> on the translation manager.
\<close>

definition BindAndCreateTranslator :: "client \<Rightarrow> client" where
  "BindAndCreateTranslator s =
     (let s1 = emit ReceiverBind (s\<lparr>receiver_bound := True\<rparr>);
          s2 = (if monitor s1 then emit MonitorBindRemote s1 else s1)
      in emit (CreateTranslatorCall (source_language s2) (target_language s2) (monitor s2)) s2)"

text \<open>
  \<^verbatim>\<open>OnGotAvailability\<close>. A crash is returned together with the state it happened in:
  the failed \<^verbatim>\<open>CHECK\<close> comes first, the null resolver is dereferenced after the
  attempt to consume an activation.
\<close>

definition OnGotAvailability ::
  "environment \<Rightarrow> CanCreateTranslatorResult \<Rightarrow> client \<Rightarrow> crash \<times> client + client" where
  "OnGotAvailability env result s =
     (if \<not> (window_present env \<or> IsServiceWorkerGlobalScope env) then Inl (CheckFailure, s)
      else if TranslationAPIV1Enabled env \<and> \<not> IsServiceWorkerGlobalScope env
              \<and> RequiresUserActivation result
      then (case ConsumeTransientUserActivation s of
              (consumed, s') \<Rightarrow>
                if \<not> consumed
                then (if resolver s'
                      then Inr (RejectWithDOMException kNotAllowedError
                                  (kExceptionMessageUserActivationRequired env) s')
                      else Inl (NullDereference, s'))
                else Inr (BindAndCreateTranslator s'))
      else Inr (BindAndCreateTranslator s))"

subsection \<open>A request from construction to the last message\<close>

text \<open>What can arrive once the availability has been handled.\<close>

datatype message = Result CreateTranslatorResult | AbortSignalled

fun is_Result :: "message \<Rightarrow> bool" where
  "is_Result (Result r) = True"
| "is_Result AbortSignalled = False"

fun deliver :: "environment \<Rightarrow> message \<Rightarrow> client \<Rightarrow> client" where
  "deliver env (Result r) s = OnResult env r s"
| "deliver env AbortSignalled s = Abort s"

fun run :: "environment \<Rightarrow> message list \<Rightarrow> client \<Rightarrow> client" where
  "run env [] s = s"
| "run env (m # ms) s = run env ms (deliver env m s)"

text \<open>
  One request: the client is constructed, the signal may fire before the availability
  arrives, the availability is handled, and then any messages are delivered. A crash in
  \<open>OnGotAvailability\<close> ends the request in the state the crash happened in.
\<close>

definition lifecycle ::
  "environment \<Rightarrow> TranslatorCreateOptions \<Rightarrow> bool \<Rightarrow> bool \<Rightarrow> CanCreateTranslatorResult
     \<Rightarrow> message list \<Rightarrow> client" where
  "lifecycle env options activation early_abort availability ms =
     (let s0 = CreateTranslatorClient options activation;
          s1 = (if early_abort then Abort s0 else s0)
      in case OnGotAvailability env availability s1 of
           Inl stopped \<Rightarrow> snd stopped
         | Inr s2 \<Rightarrow> run env ms s2)"

fun is_resolver_call :: "effect \<Rightarrow> bool" where
  "is_resolver_call (ResolverReject e) = True"
| "is_resolver_call (ResolverResolve t) = True"
| "is_resolver_call MonitorCallbackInvoke = False"
| "is_resolver_call (ConsumeTransientUserActivationCall b) = False"
| "is_resolver_call (AddConsoleMessage src lvl msg) = False"
| "is_resolver_call (DownloadProgressEvent loaded whole) = False"
| "is_resolver_call ReceiverBind = False"
| "is_resolver_call MonitorBindRemote = False"
| "is_resolver_call (CreateTranslatorCall src tgt obs) = False"
| "is_resolver_call ReceiverReset = False"

definition resolver_calls :: "effect list \<Rightarrow> nat" where
  "resolver_calls es = length (filter is_resolver_call es)"

subsection \<open>Concrete surroundings and requests\<close>

definition quiet_observer :: "nat \<Rightarrow> nat \<Rightarrow> bool" where
  "quiet_observer loaded whole = False"

definition abort_on_start :: "nat \<Rightarrow> nat \<Rightarrow> bool" where
  "abort_on_start loaded whole = (loaded = 0)"

definition window_env :: environment where
  "window_env =
     \<lparr>TranslationAPIV1Enabled = True, IsServiceWorkerGlobalScope = False,
      window_present = True,
      kExceptionMessageUserActivationRequired = ''user activation required'',
      kNormalizedDownloadProgressMax = 65536, observer_aborts = quiet_observer\<rparr>"

definition worker_env :: environment where
  "worker_env = window_env\<lparr>IsServiceWorkerGlobalScope := True, window_present := False\<rparr>"

definition flag_off_env :: environment where
  "flag_off_env = window_env\<lparr>TranslationAPIV1Enabled := False\<rparr>"

definition hostile_env :: environment where
  "hostile_env = window_env\<lparr>observer_aborts := abort_on_start\<rparr>"

definition en_fr :: TranslatorCreateOptions where
  "en_fr = \<lparr>sourceLanguage = ''en'', targetLanguage = ''fr'', hasMonitor = True,
            getSignal = Some 1\<rparr>"

definition en_xx :: TranslatorCreateOptions where
  "en_xx = \<lparr>sourceLanguage = ''en'', targetLanguage = ''xx'', hasMonitor = False,
            getSignal = None\<rparr>"

section \<open>Properties\<close>

subsection \<open>The pure helpers\<close>

lemma all_CreateTranslatorError_complete: "e \<in> set all_CreateTranslatorError"
  by (cases e) (simp_all add: all_CreateTranslatorError_def)

lemma debug_strings_table:
  "map ConvertCreateTranslatorErrorToDebugString all_CreateTranslatorError =
     [''Failed to load the translation library.'',
      ''The translation library is not compatible.'',
      ''Failed to initialize the translation library.'',
      ''The translation library failed to create a translator.'',
      ''The preferred languages check for Translator API failed. '' @ kLinkToDocument,
      ''The Translator API language pack count exceeded the limitation. '' @ kLinkToDocument,
      ''The translation service crashed.'',
      ''The translation is disallowed by policy.'',
      ''The translation service count exceeded the limitation.'',
      ''Too many Translator API requests are queued.'',
      ''The translation library version is invalid.'']"
  by (simp add: all_CreateTranslatorError_def)

lemma debug_strings_distinct:
  "distinct (map ConvertCreateTranslatorErrorToDebugString all_CreateTranslatorError)"
  by (simp add: all_CreateTranslatorError_def kLinkToDocument_def)

text \<open>
  C7. The debug-message mapping is defined on each of the eleven error kinds: the list of
  all kinds has eleven distinct entries and covers the type, and kind by kind, in the order
  of the switch, the mapping returns the eleven messages of the source and nothing else, so
  no kind is served by a default. The eleven messages are pairwise different and none is
  empty. The documentation link (the fixed text of \<open>kLinkToDocument\<close>) is the tail of the
  message for \<open>kAcceptLanguagesCheckFailed\<close> and \<open>kExceedsLanguagePackCountLimitation\<close>,
  and for no other kind.
\<close>

theorem debug_string_total_nonempty_link:
  "length all_CreateTranslatorError = 11
   \<and> distinct all_CreateTranslatorError
   \<and> set all_CreateTranslatorError = UNIV
   \<and> map ConvertCreateTranslatorErrorToDebugString all_CreateTranslatorError =
       [''Failed to load the translation library.'',
        ''The translation library is not compatible.'',
        ''Failed to initialize the translation library.'',
        ''The translation library failed to create a translator.'',
        ''The preferred languages check for Translator API failed. '' @ kLinkToDocument,
        ''The Translator API language pack count exceeded the limitation. '' @ kLinkToDocument,
        ''The translation service crashed.'',
        ''The translation is disallowed by policy.'',
        ''The translation service count exceeded the limitation.'',
        ''Too many Translator API requests are queued.'',
        ''The translation library version is invalid.'']
   \<and> kLinkToDocument =
       ''See https://developer.chrome.com/docs/ai/translator-api?#supported-languages for more details.''
   \<and> distinct (map ConvertCreateTranslatorErrorToDebugString all_CreateTranslatorError)
   \<and> inj ConvertCreateTranslatorErrorToDebugString
   \<and> ConvertCreateTranslatorErrorToDebugString e \<noteq> []
   \<and> ConvertCreateTranslatorErrorToDebugString kAcceptLanguagesCheckFailed =
       ''The preferred languages check for Translator API failed. '' @ kLinkToDocument
   \<and> ConvertCreateTranslatorErrorToDebugString kExceedsLanguagePackCountLimitation =
       ''The Translator API language pack count exceeded the limitation. '' @ kLinkToDocument
   \<and> suffix kLinkToDocument (ConvertCreateTranslatorErrorToDebugString e) =
       (e = kAcceptLanguagesCheckFailed \<or> e = kExceedsLanguagePackCountLimitation)"
proof -
  have len: "length all_CreateTranslatorError = 11"
    and dist: "distinct all_CreateTranslatorError"
    by (simp_all add: all_CreateTranslatorError_def)
  have univ: "set all_CreateTranslatorError = UNIV"
    using all_CreateTranslatorError_complete by blast
  have link_text: "kLinkToDocument =
       ''See https://developer.chrome.com/docs/ai/translator-api?#supported-languages for more details.''"
    by (simp add: kLinkToDocument_def)
  have "inj_on ConvertCreateTranslatorErrorToDebugString (set all_CreateTranslatorError)"
    using debug_strings_distinct by (simp add: distinct_map)
  then have inj: "inj ConvertCreateTranslatorErrorToDebugString"
    by (simp only: univ)
  have nonempty: "ConvertCreateTranslatorErrorToDebugString e \<noteq> []"
    by (cases e) simp_all
  have link: "suffix kLinkToDocument (ConvertCreateTranslatorErrorToDebugString e) =
       (e = kAcceptLanguagesCheckFailed \<or> e = kExceedsLanguagePackCountLimitation)"
    by (cases e) (simp_all add: kLinkToDocument_def suffix_to_prefix)
  have two: "ConvertCreateTranslatorErrorToDebugString kAcceptLanguagesCheckFailed =
       ''The preferred languages check for Translator API failed. '' @ kLinkToDocument"
    "ConvertCreateTranslatorErrorToDebugString kExceedsLanguagePackCountLimitation =
       ''The Translator API language pack count exceeded the limitation. '' @ kLinkToDocument"
    by simp_all
  show ?thesis
    apply (intro conjI)
    apply (rule len)
    apply (rule dist)
    apply (rule univ)
    apply (rule debug_strings_table)
    apply (rule link_text)
    apply (rule debug_strings_distinct)
    apply (rule inj)
    apply (rule nonempty)
    apply (rule two(1))
    apply (rule two(2))
    apply (rule link)
    done
qed

text \<open>
  C8. The availability classification is defined on every variant: it answers true
  exactly on the four download-still-needed variants, and false on the ready variant and
  on each of the six blocked variants.
\<close>

theorem requires_user_activation_classification:
  "RequiresUserActivation r =
     (r = kAfterDownloadLibraryNotReady \<or> r = kAfterDownloadLanguagePackNotReady
      \<or> r = kAfterDownloadLibraryAndLanguagePackNotReady
      \<or> r = kAfterDownloadTranslatorCreationRequired)
   \<and> RequiresUserActivation kAfterDownloadLibraryNotReady
   \<and> RequiresUserActivation kAfterDownloadLanguagePackNotReady
   \<and> RequiresUserActivation kAfterDownloadLibraryAndLanguagePackNotReady
   \<and> RequiresUserActivation kAfterDownloadTranslatorCreationRequired
   \<and> \<not> RequiresUserActivation kReadily
   \<and> \<not> RequiresUserActivation kNoNotSupportedLanguage
   \<and> \<not> RequiresUserActivation kNoAcceptLanguagesCheckFailed
   \<and> \<not> RequiresUserActivation kNoExceedsLanguagePackCountLimitation
   \<and> \<not> RequiresUserActivation kNoServiceCrashed
   \<and> \<not> RequiresUserActivation kNoDisallowedByPolicy
   \<and> \<not> RequiresUserActivation kNoExceedsServiceCountLimitation"
  by (cases r) simp_all

subsection \<open>Unfolding and single steps\<close>

lemmas on_result_defs = OnResult_def OnResult_body_def Cleanup_def ResetReceiver_def emit_def
  Resolve_def Reject_def ResolveWithTranslator_def OnDownloadProgressUpdate_def Abort_def
  DOMException_Create_def

lemmas on_availability_defs = OnGotAvailability_def BindAndCreateTranslator_def
  ConsumeTransientUserActivation_def RejectWithDOMException_def Reject_def
  DOMException_Create_def emit_def

lemmas concrete_defs = window_env_def worker_env_def flag_off_env_def hostile_env_def
  en_fr_def en_xx_def quiet_observer_def abort_on_start_def CreateTranslatorClient_def
  lifecycle_def

lemma OnResult_absent: "\<not> resolver s \<Longrightarrow> OnResult env r s = Cleanup s"
  by (simp add: OnResult_def OnResult_body_def)

lemma effects_Cleanup: "effects (Cleanup s) = effects s @ [ReceiverReset]"
  by (simp add: Cleanup_def ResetReceiver_def emit_def)

lemma resolver_Cleanup: "resolver (Cleanup s) = resolver s"
  by (simp add: Cleanup_def ResetReceiver_def emit_def)

lemma resolver_OnResult: "\<not> resolver (OnResult env r s)"
  by (cases r) (simp_all add: on_result_defs Let_def)

lemma calls_OnResult:
  "resolver_calls (effects (OnResult env r s)) \<le> resolver_calls (effects s) + 1"
  by (cases r) (simp_all add: on_result_defs Let_def resolver_calls_def)

lemma calls_append:
  "resolver_calls (xs @ ys) = resolver_calls xs + resolver_calls ys"
  by (simp add: resolver_calls_def)

lemma effects_OnResult_error:
  "resolver s \<Longrightarrow>
     effects (OnResult env (error kind) s) =
       effects s @
       [AddConsoleMessage kJavaScript kWarning (ConvertCreateTranslatorErrorToDebugString kind),
        ResolverReject
          \<lparr>exception_message =
             ''Unable to create translator for the given source and target language.'',
           exception_name = kNotSupportedError\<rparr>,
        ReceiverReset]"
  by (simp add: on_result_defs kExceptionMessageUnableToCreateTranslator_def)

lemma effects_BindAndCreateTranslator:
  "effects (BindAndCreateTranslator s) =
     effects s @ [ReceiverBind] @ (if monitor s then [MonitorBindRemote] else [])
       @ [CreateTranslatorCall (source_language s) (target_language s) (monitor s)]"
  by (simp add: BindAndCreateTranslator_def emit_def Let_def)

lemma frame_BindAndCreateTranslator:
  "transient_activation (BindAndCreateTranslator s) = transient_activation s
   \<and> resolver (BindAndCreateTranslator s) = resolver s
   \<and> receiver_bound (BindAndCreateTranslator s)"
  by (simp add: BindAndCreateTranslator_def emit_def Let_def)

lemma OnGotAvailability_ungated:
  assumes "window_present env \<or> IsServiceWorkerGlobalScope env"
    and "\<not> TranslationAPIV1Enabled env \<or> IsServiceWorkerGlobalScope env
         \<or> \<not> RequiresUserActivation availability"
  shows "OnGotAvailability env availability s = Inr (BindAndCreateTranslator s)"
  using assms by (auto simp add: OnGotAvailability_def)

subsection \<open>Messages after the resolver has gone\<close>

lemma run_absent:
  "\<not> resolver s \<Longrightarrow>
     \<not> resolver (run env ms s)
     \<and> effects (run env ms s) = effects s @ replicate (length (filter is_Result ms)) ReceiverReset"
proof (induction ms arbitrary: s)
  case Nil
  then show ?case by simp
next
  case (Cons m ms)
  show ?case
  proof (cases m)
    case (Result r)
    from Cons.prems have eq: "OnResult env r s = Cleanup s"
      by (rule OnResult_absent)
    have "\<not> resolver (Cleanup s)"
      using Cons.prems by (simp add: resolver_Cleanup)
    from Cons.IH [OF this] show ?thesis
      by (simp add: eq Result effects_Cleanup replicate_app_Cons_same)
  next
    case AbortSignalled
    have "\<not> resolver (Abort s)" by (simp add: Abort_def)
    from Cons.IH [OF this] show ?thesis
      by (simp add: AbortSignalled Abort_def)
  qed
qed

lemma run_append: "run env (ms @ later) s = run env later (run env ms s)"
  by (induction ms arbitrary: s) simp_all

subsection \<open>The invariant of a request\<close>

text \<open>
While the resolver is present it has not been called, and it is never called twice.
\<close>

lemma deliver_invariant:
  assumes "resolver_calls (effects s) \<le> (if resolver s then 0 else 1)"
  shows "resolver_calls (effects (deliver env m s)) \<le> (if resolver (deliver env m s) then 0 else 1)"
proof (cases m)
  case (Result r)
  show ?thesis
  proof (cases "resolver s")
    case True
    with assms have "resolver_calls (effects s) = 0" by simp
    with calls_OnResult [of env r s] show ?thesis
      by (simp add: Result resolver_OnResult)
  next
    case False
    with assms show ?thesis
      by (simp add: Result OnResult_absent effects_Cleanup resolver_Cleanup calls_append
          resolver_calls_def)
  qed
next
  case AbortSignalled
  with assms show ?thesis by (simp add: Abort_def split: if_splits)
qed

lemma run_invariant:
  "resolver_calls (effects s) \<le> (if resolver s then 0 else 1) \<Longrightarrow>
   resolver_calls (effects (run env ms s)) \<le> (if resolver (run env ms s) then 0 else 1)"
proof (induction ms arbitrary: s)
  case Nil
  then show ?case by simp
next
  case (Cons m ms)
  from Cons.IH [OF deliver_invariant [OF Cons.prems]] show ?case by simp
qed

lemma constructor_invariant:
  "resolver_calls (effects (CreateTranslatorClient options activation)) = 0"
  by (simp add: CreateTranslatorClient_def resolver_calls_def)

lemma availability_invariant:
  assumes "resolver_calls (effects s) = 0" and "OnGotAvailability env availability s = Inr s'"
  shows "resolver_calls (effects s') \<le> (if resolver s' then 0 else 1)"
  using assms
  by (auto simp add: on_availability_defs Let_def resolver_calls_def split: if_splits)

lemma crash_invariant:
  assumes "resolver_calls (effects s) = 0"
    and "OnGotAvailability env availability s = Inl stopped"
  shows "resolver_calls (effects (snd stopped)) = 0"
  using assms
  by (auto simp add: on_availability_defs Let_def resolver_calls_def split: if_splits)

lemma lifecycle_invariant:
  "resolver_calls (effects (lifecycle env options activation early availability ms))
     \<le> (if resolver (lifecycle env options activation early availability ms) then 0 else 1)"
proof -
  define s1 where "s1 = (if early then Abort (CreateTranslatorClient options activation)
                         else CreateTranslatorClient options activation)"
  have zero: "resolver_calls (effects s1) = 0"
    by (simp add: s1_def Abort_def constructor_invariant)
  show ?thesis
  proof (cases "OnGotAvailability env availability s1")
    case (Inl stopped)
    then have "lifecycle env options activation early availability ms = snd stopped"
      by (simp add: lifecycle_def s1_def Let_def)
    with crash_invariant [OF zero Inl] show ?thesis by simp
  next
    case (Inr s2)
    then have eq: "lifecycle env options activation early availability ms = run env ms s2"
      by (simp add: lifecycle_def s1_def Let_def)
    from run_invariant [OF availability_invariant [OF zero Inr]] show ?thesis
      by (simp add: eq)
  qed
qed

lemma lifecycle_append:
  assumes "resolver_calls (effects (lifecycle env options activation early availability ms)) \<noteq> 0"
  shows "lifecycle env options activation early availability (ms @ later) =
         run env later (lifecycle env options activation early availability ms)"
proof -
  define s1 where "s1 = (if early then Abort (CreateTranslatorClient options activation)
                         else CreateTranslatorClient options activation)"
  have zero: "resolver_calls (effects s1) = 0"
    by (simp add: s1_def Abort_def constructor_invariant)
  show ?thesis
  proof (cases "OnGotAvailability env availability s1")
    case (Inl stopped)
    then have "lifecycle env options activation early availability ms = snd stopped"
      by (simp add: lifecycle_def s1_def Let_def)
    with crash_invariant [OF zero Inl] assms show ?thesis by simp
  next
    case (Inr s2)
    then show ?thesis
      by (simp add: lifecycle_def s1_def [symmetric] Let_def run_append)
  qed
qed

subsection \<open>Resolution\<close>

text \<open>
  C1. In every request (any options, any surroundings, the signal fired early or not, any
  availability, any sequence of result messages and abort signals) the resolver is called
  at most once, counting resolve and reject together. Once it has been called it is absent,
  and whatever arrives later adds nothing to the trace but the receiver reset of the
  cleanup that follows each result message.
\<close>

theorem single_resolution:
  "resolver_calls (effects (lifecycle env options activation early availability ms)) \<le> 1
   \<and> (resolver_calls (effects (lifecycle env options activation early availability ms)) = 1 \<longrightarrow>
        \<not> resolver (lifecycle env options activation early availability ms)
        \<and> effects (lifecycle env options activation early availability (ms @ later)) =
            effects (lifecycle env options activation early availability ms)
              @ replicate (length (filter is_Result later)) ReceiverReset)"
proof -
  let ?s = "lifecycle env options activation early availability ms"
  have inv: "resolver_calls (effects ?s) \<le> (if resolver ?s then 0 else 1)"
    by (rule lifecycle_invariant)
  then have once: "resolver_calls (effects ?s) \<le> 1"
    by (simp split: if_splits)
  have after: "\<not> resolver ?s
        \<and> effects (lifecycle env options activation early availability (ms @ later)) =
            effects ?s @ replicate (length (filter is_Result later)) ReceiverReset"
    if one: "resolver_calls (effects ?s) = 1"
  proof -
    from inv one have gone: "\<not> resolver ?s" by (simp split: if_splits)
    from one have "resolver_calls (effects ?s) \<noteq> 0" by simp
    from lifecycle_append [OF this] run_absent [OF gone, of env later] gone
    show ?thesis by simp
  qed
  from once after show ?thesis by blast
qed

text \<open>
A request that resolves, followed by a failure result, an abort signal and a second success.
\<close>

theorem single_resolution_witness:
  "resolver_calls (effects (lifecycle window_env en_fr True False kReadily
      [Result (translator 7)])) = 1
   \<and> \<not> resolver (lifecycle window_env en_fr True False kReadily [Result (translator 7)])
   \<and> effects (lifecycle window_env en_fr True False kReadily
        ([Result (translator 7)] @
         [Result (error kServiceCrashed), AbortSignalled, Result (translator 8)])) =
      effects (lifecycle window_env en_fr True False kReadily [Result (translator 7)])
        @ [ReceiverReset, ReceiverReset]"
proof -
  have one: "resolver_calls (effects (lifecycle window_env en_fr True False kReadily
      [Result (translator 7)])) = 1"
    by (simp add: concrete_defs on_availability_defs on_result_defs resolver_calls_def Let_def)
  from single_resolution [of window_env en_fr True False kReadily "[Result (translator 7)]"
      "[Result (error kServiceCrashed), AbortSignalled, Result (translator 8)]"] one
  show ?thesis by (simp add: numeral_2_eq_2)
qed

subsection \<open>The activation gate of OnGotAvailability\<close>

text \<open>
  The gate is not applied when the runtime feature is off: in a window, with a
  download-then-create availability and no transient activation, nothing is rejected, the
  receiver is bound and the create call is made.
\<close>

theorem activation_gating_counterexample:
  "RequiresUserActivation kAfterDownloadTranslatorCreationRequired
   \<and> \<not> transient_activation (CreateTranslatorClient en_xx False)
   \<and> window_present flag_off_env
   \<and> OnGotAvailability flag_off_env kAfterDownloadTranslatorCreationRequired
         (CreateTranslatorClient en_xx False)
       = Inr (BindAndCreateTranslator (CreateTranslatorClient en_xx False))
   \<and> effects (BindAndCreateTranslator (CreateTranslatorClient en_xx False)) =
       [ReceiverBind, CreateTranslatorCall ''en'' ''xx'' False]"
  by (simp add: concrete_defs OnGotAvailability_def effects_BindAndCreateTranslator)

text \<open>
  C2, as the code has it. With the runtime feature on, in a window and not a service worker, and an
  availability that requires a download: if the frame has no transient activation (and the
  resolver is present), the only effects are the failed attempt to consume one and a
  rejection with \<open>kNotAllowedError\<close>, and the receiver is left as it was; if the frame
  has a transient activation, it is consumed, the receiver is bound and the create call is
  made once.
\<close>

theorem activation_gating:
  assumes "TranslationAPIV1Enabled env" and "\<not> IsServiceWorkerGlobalScope env"
    and "window_present env" and "RequiresUserActivation availability"
  shows "(\<not> transient_activation s \<and> resolver s \<longrightarrow>
            OnGotAvailability env availability s =
              Inr (RejectWithDOMException kNotAllowedError
                     (kExceptionMessageUserActivationRequired env)
                     (snd (ConsumeTransientUserActivation s)))
            \<and> effects (RejectWithDOMException kNotAllowedError
                     (kExceptionMessageUserActivationRequired env)
                     (snd (ConsumeTransientUserActivation s))) =
                effects s @
                [ConsumeTransientUserActivationCall False,
                 ResolverReject
                   \<lparr>exception_message = kExceptionMessageUserActivationRequired env,
                    exception_name = kNotAllowedError\<rparr>]
            \<and> receiver_bound (RejectWithDOMException kNotAllowedError
                     (kExceptionMessageUserActivationRequired env)
                     (snd (ConsumeTransientUserActivation s))) = receiver_bound s)
       \<and> (transient_activation s \<longrightarrow>
            OnGotAvailability env availability s =
              Inr (BindAndCreateTranslator (snd (ConsumeTransientUserActivation s)))
            \<and> effects (BindAndCreateTranslator (snd (ConsumeTransientUserActivation s))) =
                effects s @ [ConsumeTransientUserActivationCall True, ReceiverBind]
                  @ (if monitor s then [MonitorBindRemote] else [])
                  @ [CreateTranslatorCall (source_language s) (target_language s) (monitor s)]
            \<and> receiver_bound (BindAndCreateTranslator (snd (ConsumeTransientUserActivation s)))
            \<and> \<not> transient_activation
                  (BindAndCreateTranslator (snd (ConsumeTransientUserActivation s))))"
  using assms by (simp add: on_availability_defs Let_def)

theorem activation_gating_witness:
  "effects (lifecycle window_env en_xx False False kAfterDownloadTranslatorCreationRequired []) =
     [ConsumeTransientUserActivationCall False,
      ResolverReject \<lparr>exception_message = ''user activation required'',
                      exception_name = kNotAllowedError\<rparr>]
   \<and> effects (lifecycle window_env en_xx True False kAfterDownloadTranslatorCreationRequired []) =
     [ConsumeTransientUserActivationCall True, ReceiverBind,
      CreateTranslatorCall ''en'' ''xx'' False]"
proof -
  have h: "TranslationAPIV1Enabled window_env" "\<not> IsServiceWorkerGlobalScope window_env"
    "window_present window_env" "RequiresUserActivation kAfterDownloadTranslatorCreationRequired"
    by (simp_all add: concrete_defs)
  have absent: "\<not> transient_activation (CreateTranslatorClient en_xx False)
      \<and> resolver (CreateTranslatorClient en_xx False)"
    and present: "transient_activation (CreateTranslatorClient en_xx True)"
    by (simp_all add: concrete_defs)
  from activation_gating [OF h, of "CreateTranslatorClient en_xx False"]
       activation_gating [OF h, of "CreateTranslatorClient en_xx True"] absent present
  show ?thesis by (simp add: lifecycle_def Let_def CreateTranslatorClient_def en_xx_def window_env_def)
qed

text \<open>
  C9. When the runtime feature is off, or the context is a service worker, every
  availability is handled alike (in a context that passes the \<^verbatim>\<open>CHECK\<close>): no attempt
  to consume an activation, no rejection, the receiver is bound, the monitor's remote is
  bound when there is a monitor, and the create call is made; the frame's activation and
  the resolver are left as they were.
\<close>

theorem activation_gate_skipped:
  assumes "window_present env \<or> IsServiceWorkerGlobalScope env"
    and "\<not> TranslationAPIV1Enabled env \<or> IsServiceWorkerGlobalScope env"
  shows "OnGotAvailability env availability s = Inr (BindAndCreateTranslator s)
     \<and> effects (BindAndCreateTranslator s) =
         effects s @ [ReceiverBind] @ (if monitor s then [MonitorBindRemote] else [])
           @ [CreateTranslatorCall (source_language s) (target_language s) (monitor s)]
     \<and> transient_activation (BindAndCreateTranslator s) = transient_activation s
     \<and> resolver (BindAndCreateTranslator s) = resolver s
     \<and> receiver_bound (BindAndCreateTranslator s)"
proof -
  from assms(2) have "\<not> TranslationAPIV1Enabled env \<or> IsServiceWorkerGlobalScope env
         \<or> \<not> RequiresUserActivation availability"
    by blast
  from OnGotAvailability_ungated [OF assms(1) this] show ?thesis
    by (simp only: effects_BindAndCreateTranslator frame_BindAndCreateTranslator simp_thms)
qed

theorem activation_gate_skipped_witness:
  "OnGotAvailability flag_off_env kAfterDownloadLibraryNotReady (CreateTranslatorClient en_fr True)
     = Inr (BindAndCreateTranslator (CreateTranslatorClient en_fr True))
   \<and> effects (BindAndCreateTranslator (CreateTranslatorClient en_fr True)) =
       [MonitorCallbackInvoke, ReceiverBind, MonitorBindRemote,
        CreateTranslatorCall ''en'' ''fr'' True]
   \<and> transient_activation (BindAndCreateTranslator (CreateTranslatorClient en_fr True))"
proof -
  have h: "window_present flag_off_env \<or> IsServiceWorkerGlobalScope flag_off_env"
    "\<not> TranslationAPIV1Enabled flag_off_env \<or> IsServiceWorkerGlobalScope flag_off_env"
    by (simp_all add: concrete_defs)
  from activation_gate_skipped [OF h, of kAfterDownloadLibraryNotReady
      "CreateTranslatorClient en_fr True"]
  show ?thesis by (simp add: concrete_defs)
qed

text \<open>
  An unsupported language pair does not stop \<open>OnGotAvailability\<close>: for the request
  from \<open>en\<close> to \<open>xx\<close> the create call is made and the resolver is still present
  afterwards.
\<close>

theorem unsupported_language_counterexample:
  "OnGotAvailability window_env kNoNotSupportedLanguage (CreateTranslatorClient en_xx False)
     = Inr (BindAndCreateTranslator (CreateTranslatorClient en_xx False))
   \<and> effects (BindAndCreateTranslator (CreateTranslatorClient en_xx False)) =
       [ReceiverBind, CreateTranslatorCall ''en'' ''xx'' False]
   \<and> resolver (BindAndCreateTranslator (CreateTranslatorClient en_xx False))"
  by (simp add: concrete_defs OnGotAvailability_def effects_BindAndCreateTranslator
      frame_BindAndCreateTranslator)

text \<open>
  C3, as the code has it. When the availability is \<open>kNoNotSupportedLanguage\<close>, the client rejects
  nothing by itself: it binds the receiver and makes the create call once. The rejection
  with the fixed message follows when the provider answers that call with an error.
\<close>

theorem unsupported_language_request_sent:
  assumes "window_present env \<or> IsServiceWorkerGlobalScope env"
  shows "effects (lifecycle env options activation False kNoNotSupportedLanguage []) =
           (if hasMonitor options then [MonitorCallbackInvoke] else []) @ [ReceiverBind]
             @ (if hasMonitor options then [MonitorBindRemote] else [])
             @ [CreateTranslatorCall (sourceLanguage options) (targetLanguage options)
                  (hasMonitor options)]
         \<and> effects (lifecycle env options activation False kNoNotSupportedLanguage
                      [Result (error kind)]) =
           (if hasMonitor options then [MonitorCallbackInvoke] else []) @ [ReceiverBind]
             @ (if hasMonitor options then [MonitorBindRemote] else [])
             @ [CreateTranslatorCall (sourceLanguage options) (targetLanguage options)
                  (hasMonitor options),
                AddConsoleMessage kJavaScript kWarning
                  (ConvertCreateTranslatorErrorToDebugString kind),
                ResolverReject
                  \<lparr>exception_message =
                     ''Unable to create translator for the given source and target language.'',
                   exception_name = kNotSupportedError\<rparr>,
                ReceiverReset]"
proof -
  let ?s0 = "CreateTranslatorClient options activation"
  have "\<not> TranslationAPIV1Enabled env \<or> IsServiceWorkerGlobalScope env
         \<or> \<not> RequiresUserActivation kNoNotSupportedLanguage"
    by simp
  from OnGotAvailability_ungated [OF assms this]
  have sent: "OnGotAvailability env kNoNotSupportedLanguage ?s0 = Inr (BindAndCreateTranslator ?s0)" .
  have present: "resolver (BindAndCreateTranslator ?s0)"
    by (simp add: frame_BindAndCreateTranslator CreateTranslatorClient_def)
  have start: "effects (BindAndCreateTranslator ?s0) =
           (if hasMonitor options then [MonitorCallbackInvoke] else []) @ [ReceiverBind]
             @ (if hasMonitor options then [MonitorBindRemote] else [])
             @ [CreateTranslatorCall (sourceLanguage options) (targetLanguage options)
                  (hasMonitor options)]"
    by (simp add: effects_BindAndCreateTranslator CreateTranslatorClient_def)
  from sent start effects_OnResult_error [OF present, of env kind]
  show ?thesis by (simp add: lifecycle_def Let_def)
qed

theorem unsupported_language_request_sent_witness:
  "effects (lifecycle window_env en_xx False False kNoNotSupportedLanguage
              [Result (error kFailedToCreateTranslator)]) =
     [ReceiverBind, CreateTranslatorCall ''en'' ''xx'' False,
      AddConsoleMessage kJavaScript kWarning
        ''The translation library failed to create a translator.'',
      ResolverReject
        \<lparr>exception_message =
           ''Unable to create translator for the given source and target language.'',
         exception_name = kNotSupportedError\<rparr>,
      ReceiverReset]"
proof -
  have h: "window_present window_env \<or> IsServiceWorkerGlobalScope window_env"
    by (simp add: concrete_defs)
  from unsupported_language_request_sent [OF h, of en_xx False kFailedToCreateTranslator]
  show ?thesis by (simp add: en_xx_def)
qed

subsection \<open>OnResult\<close>

text \<open>
  C10. If the resolver is absent when a result arrives, \<open>OnResult\<close> is \<open>Cleanup\<close>
  and nothing else: the trace grows by the receiver reset alone, whatever the result (no
  console message for an error, no progress event, no resolve, no reject).
\<close>

theorem on_result_resolver_absent:
  "\<not> resolver s \<Longrightarrow>
     OnResult env result s = Cleanup s
     \<and> effects (OnResult env result s) = effects s @ [ReceiverReset]
     \<and> \<not> resolver (OnResult env result s)"
  by (simp add: OnResult_absent effects_Cleanup resolver_Cleanup)

theorem on_result_resolver_absent_witness:
  "\<not> resolver (Abort (CreateTranslatorClient en_fr True))
   \<and> effects (OnResult window_env (error kServiceCrashed) (Abort (CreateTranslatorClient en_fr True)))
       = [MonitorCallbackInvoke, ReceiverReset]"
proof -
  have gone: "\<not> resolver (Abort (CreateTranslatorClient en_fr True))"
    by (simp add: Abort_def)
  from on_result_resolver_absent [OF gone, of window_env "error kServiceCrashed"] gone
  show ?thesis by (simp add: concrete_defs on_result_defs)
qed

text \<open>
  C6. On an error result with the resolver present, the debug string of the error kind goes
  to the console as a JavaScript warning, the resolver is rejected with a
  \<open>kNotSupportedError\<close> carrying the one fixed message, and cleanup runs; what the
  resolver receives is the same for any two error kinds.
\<close>

theorem on_result_failure:
  "resolver s \<Longrightarrow>
     effects (OnResult env (error kind) s) =
       effects s @
       [AddConsoleMessage kJavaScript kWarning (ConvertCreateTranslatorErrorToDebugString kind),
        ResolverReject
          \<lparr>exception_message =
             ''Unable to create translator for the given source and target language.'',
           exception_name = kNotSupportedError\<rparr>,
        ReceiverReset]
     \<and> filter is_resolver_call (effects (OnResult env (error kind) s)) =
         filter is_resolver_call (effects (OnResult env (error other_kind) s))"
  by (simp add: on_result_defs kExceptionMessageUnableToCreateTranslator_def)

theorem on_result_failure_witness:
  "resolver (CreateTranslatorClient en_xx False)
   \<and> effects (OnResult window_env (error kInvalidBinary) (CreateTranslatorClient en_xx False)) =
       [AddConsoleMessage kJavaScript kWarning ''Failed to load the translation library.'',
        ResolverReject
          \<lparr>exception_message =
             ''Unable to create translator for the given source and target language.'',
           exception_name = kNotSupportedError\<rparr>,
        ReceiverReset]"
proof -
  have present: "resolver (CreateTranslatorClient en_xx False)"
    by (simp add: CreateTranslatorClient_def)
  from on_result_failure [OF present, of window_env kInvalidBinary kInvalidVersion] present
  show ?thesis by (simp add: concrete_defs on_result_defs Let_def)
qed

text \<open>
  C4. On a translator result with the resolver and a monitor present, and an observer that
  does not abort while handling either event, the observer sees \<open>{0, MAX}\<close>, then
  \<open>{MAX, MAX}\<close>, then the resolver is resolved with a translator carrying the remote,
  the two languages of the request and its signal, then cleanup runs; whatever arrives
  later adds no progress event.
\<close>

theorem progress_framing:
  assumes "resolver s" and "monitor s"
    and "\<not> observer_aborts env 0 (kNormalizedDownloadProgressMax env)"
    and "\<not> observer_aborts env (kNormalizedDownloadProgressMax env)
             (kNormalizedDownloadProgressMax env)"
  shows "effects (OnResult env (translator remote) s) =
           effects s @
           [DownloadProgressEvent 0 (kNormalizedDownloadProgressMax env),
            DownloadProgressEvent (kNormalizedDownloadProgressMax env)
              (kNormalizedDownloadProgressMax env),
            ResolverResolve
              \<lparr>translator_remote = remote,
               translator_source_language = source_language s,
               translator_target_language = target_language s,
               translator_signal = abort_signal s\<rparr>,
            ReceiverReset]
         \<and> effects (run env ms (OnResult env (translator remote) s)) =
             effects (OnResult env (translator remote) s)
               @ replicate (length (filter is_Result ms)) ReceiverReset"
proof -
  have first: "effects (OnResult env (translator remote) s) =
           effects s @
           [DownloadProgressEvent 0 (kNormalizedDownloadProgressMax env),
            DownloadProgressEvent (kNormalizedDownloadProgressMax env)
              (kNormalizedDownloadProgressMax env),
            ResolverResolve
              \<lparr>translator_remote = remote,
               translator_source_language = source_language s,
               translator_target_language = target_language s,
               translator_signal = abort_signal s\<rparr>,
            ReceiverReset]"
    using assms by (simp add: on_result_defs Let_def)
  from run_absent [OF resolver_OnResult, of env ms env "translator remote" s] first
  show ?thesis by simp
qed

theorem progress_framing_witness:
  "effects (run window_env [Result (translator 8), AbortSignalled]
      (OnResult window_env (translator 7) (CreateTranslatorClient en_fr True))) =
     [MonitorCallbackInvoke, DownloadProgressEvent 0 65536, DownloadProgressEvent 65536 65536,
      ResolverResolve
        \<lparr>translator_remote = 7, translator_source_language = ''en'',
         translator_target_language = ''fr'', translator_signal = Some 1\<rparr>,
      ReceiverReset, ReceiverReset]"
proof -
  have h: "resolver (CreateTranslatorClient en_fr True)" "monitor (CreateTranslatorClient en_fr True)"
    "\<not> observer_aborts window_env 0 (kNormalizedDownloadProgressMax window_env)"
    "\<not> observer_aborts window_env (kNormalizedDownloadProgressMax window_env)
             (kNormalizedDownloadProgressMax window_env)"
    by (simp_all add: concrete_defs)
  from progress_framing [OF h, of 7 "[Result (translator 8), AbortSignalled]"]
  show ?thesis by (simp add: concrete_defs on_result_defs Let_def)
qed

text \<open>
  C5. If the observer triggers the abort while handling the start event \<open>{0, MAX}\<close>,
  \<open>OnResult\<close> emits that event and nothing else before cleanup: no completion event, no
  resolve, no reject; the receiver is reset and the monitor released, and whatever arrives
  later adds only further receiver resets.
\<close>

theorem cancel_during_start_event:
  assumes "resolver s" and "monitor s"
    and "observer_aborts env 0 (kNormalizedDownloadProgressMax env)"
  shows "effects (OnResult env (translator remote) s) =
           effects s @ [DownloadProgressEvent 0 (kNormalizedDownloadProgressMax env), ReceiverReset]
         \<and> \<not> receiver_bound (OnResult env (translator remote) s)
         \<and> \<not> monitor (OnResult env (translator remote) s)
         \<and> effects (run env ms (OnResult env (translator remote) s)) =
             effects s @ [DownloadProgressEvent 0 (kNormalizedDownloadProgressMax env), ReceiverReset]
               @ replicate (length (filter is_Result ms)) ReceiverReset"
proof -
  have first: "effects (OnResult env (translator remote) s) =
           effects s @ [DownloadProgressEvent 0 (kNormalizedDownloadProgressMax env), ReceiverReset]"
      and cleaned: "\<not> receiver_bound (OnResult env (translator remote) s)"
        "\<not> monitor (OnResult env (translator remote) s)"
    using assms by (simp_all add: on_result_defs Let_def)
  from run_absent [OF resolver_OnResult, of env ms env "translator remote" s] first cleaned
  show ?thesis by simp
qed

theorem cancel_during_start_event_witness:
  "effects (run hostile_env [Result (translator 7), AbortSignalled]
      (OnResult hostile_env (translator 7) (CreateTranslatorClient en_fr True))) =
     [MonitorCallbackInvoke, DownloadProgressEvent 0 65536, ReceiverReset, ReceiverReset]"
proof -
  have h: "resolver (CreateTranslatorClient en_fr True)" "monitor (CreateTranslatorClient en_fr True)"
    "observer_aborts hostile_env 0 (kNormalizedDownloadProgressMax hostile_env)"
    by (simp_all add: concrete_defs)
  from cancel_during_start_event [OF h, of 7 "[Result (translator 7), AbortSignalled]"]
  show ?thesis by (simp add: concrete_defs on_result_defs Let_def)
qed

end
